theory Spec2Isabelle
  imports Complex_Main "HOL-Library.Multiset"
begin

section \<open>Data model (the mongoose schemas of the user model)\<close>

text \<open>
  JavaScript numbers are modelled as exact rationals (\<open>rat\<close>): sums, differences and
  the one division of the statistics are computed without binary rounding. Dates are
  integers (milliseconds since the epoch). \<open>null\<close> is \<open>None\<close>. Strings are
  \<open>string\<close>; the lifecycle status is kept as the string the code stores and compares.
\<close>

record named_ref =
  ref_id :: "rat option"
  ref_name :: "string option"

record game_entry =
  gameId :: rat
  name :: string
  background_image :: "string option"
  released :: "string option"
  rating :: "rat option"
  platforms :: "named_ref option list"
  genres :: "named_ref list"
  status :: string
  userRating :: "rat option"
  dateAdded :: int
  dateCompleted :: "int option"
  "notes" :: string

record stats_rec =
  totalGames :: nat
  completedGames :: nat
  averageRating :: rat

record profile_rec =
  bio :: string
  favoriteGenres :: "string list"
  joinDate :: int

record user =
  username :: string
  email :: string
  password :: string
  gameLibrary :: "game_entry list"
  profile :: profile_rec
  stats :: stats_rec

subsection \<open>Model methods\<close>

text \<open>\<open>Math.round\<close>: the nearest integer, a tie going up.\<close>

definition Math_round :: "rat \<Rightarrow> rat" where
  "Math_round x = of_int \<lfloor>x + 1 / 2\<rfloor>"

text \<open>
  The reducer \<open>(sum, game) => sum + game.userRating\<close>; a \<open>null\<close> operand of \<open>+\<close>
  counts as 0.
\<close>

definition add_rating :: "rat \<Rightarrow> game_entry \<Rightarrow> rat" where
  "add_rating acc game = (case userRating game of None \<Rightarrow> acc + 0 | Some r \<Rightarrow> acc + r)"

definition updateStats :: "user \<Rightarrow> user" where
  "updateStats u =
     (let completed = filter (\<lambda>game. status game = ''completed'') (gameLibrary u);
          ratedGames = filter (\<lambda>game. userRating game \<noteq> None) completed;
          s1 = (stats u)\<lparr>totalGames := length (gameLibrary u)\<rparr>;
          s2 = s1\<lparr>completedGames := length completed\<rparr>
      in if length ratedGames > 0
         then (let totalRating = foldl add_rating 0 ratedGames
               in u\<lparr>stats := s2\<lparr>averageRating :=
                      Math_round ((totalRating / of_nat (length ratedGames)) * 10) / 10\<rparr>\<rparr>)
         else u\<lparr>stats := s2\<lparr>averageRating := 0\<rparr>\<rparr>)"

text \<open>
  \<open>hasGame\<close> receives the raw \<open>gameId\<close> of the request body (\<open>None\<close>: the key is
  absent, which is strictly equal to no number).
\<close>

definition hasGame :: "user \<Rightarrow> rat option \<Rightarrow> bool" where
  "hasGame u gid = list_ex (\<lambda>game. Some (gameId game) = gid) (gameLibrary u)"

text \<open>
  \<open>getGame\<close> and \<open>findIndex\<close> receive \<open>parseInt(req.params.gameId)\<close>: an integer,
  or \<open>NaN\<close> (\<open>None\<close>), which is strictly equal to nothing.
\<close>

definition same_id :: "int option \<Rightarrow> game_entry \<Rightarrow> bool" where
  "same_id gid game = (case gid of None \<Rightarrow> False | Some i \<Rightarrow> gameId game = of_int i)"

fun findIndex :: "('a \<Rightarrow> bool) \<Rightarrow> 'a list \<Rightarrow> nat option" where
  "findIndex p [] = None"
| "findIndex p (x # xs) =
     (if p x then Some 0 else map_option Suc (findIndex p xs))"

definition getGame :: "user \<Rightarrow> int option \<Rightarrow> game_entry option" where
  "getGame u gid = find (same_id gid) (gameLibrary u)"


section \<open>Request bodies and the Joi schemas (backend/routes/games.js)\<close>

text \<open>
  A request body is a JSON object. Each key the schemas declare is a field that is
  \<open>None\<close> when the key is absent and otherwise carries a value of the JSON type the
  schema declares (a nullable key carries an option); the names of all other keys of the
  body are listed in \<open>req_unknown\<close> and \<open>upd_unknown\<close>. Bodies in
  which a declared key carries a value of another JSON type are not covered.
\<close>

record add_body =
  req_gameId :: "rat option"
  req_name :: "string option"
  req_background_image :: "string option option"
  req_released :: "string option option"
  req_rating :: "rat option option"
  req_platforms :: "named_ref option list option"
  req_genres :: "named_ref list option"
  req_status :: "string option"
  req_unknown :: "string list"

record update_body =
  upd_status :: "string option"
  upd_userRating :: "rat option option"
  upd_notes :: "string option"
  upd_unknown :: "string list"

datatype joi_error =
    AnyRequired string
  | StringEmpty string
  | NumberUnsafe string
  | AnyOnly string
  | NumberMin string
  | NumberMax string
  | StringMax string
  | ObjectUnknown string
  | ItemError string nat joi_error

definition valid_statuses :: "string list" where
  "valid_statuses = [''playing'', ''completed'', ''dropped'', ''plan-to-play'']"

text \<open>The rules of the schemas; each gives the violations of one value, first one first.\<close>

definition joi_number :: "string \<Rightarrow> rat \<Rightarrow> joi_error list" where
  "joi_number k x = (if \<bar>x\<bar> > 9007199254740991 then [NumberUnsafe k] else [])"

definition joi_string :: "string \<Rightarrow> string \<Rightarrow> joi_error list" where
  "joi_string k x = (if x = [] then [StringEmpty k] else [])"

definition joi_required :: "string \<Rightarrow> ('a \<Rightarrow> joi_error list) \<Rightarrow> 'a option \<Rightarrow> joi_error list" where
  "joi_required k rule v = (case v of None \<Rightarrow> [AnyRequired k] | Some x \<Rightarrow> rule x)"

definition joi_optional :: "('a \<Rightarrow> joi_error list) \<Rightarrow> 'a option \<Rightarrow> joi_error list" where
  "joi_optional rule v = (case v of None \<Rightarrow> [] | Some x \<Rightarrow> rule x)"

definition joi_ref :: "string \<Rightarrow> named_ref \<Rightarrow> joi_error list" where
  "joi_ref k r =
     joi_optional (joi_number (k @ ''id'')) (ref_id r) @
     joi_optional (joi_string (k @ ''name'')) (ref_name r)"

definition joi_items :: "string \<Rightarrow> ('a \<Rightarrow> joi_error list) \<Rightarrow> 'a list \<Rightarrow> joi_error list" where
  "joi_items k rule xs =
     concat (map (\<lambda>(i, x). map (ItemError k i) (rule x)) (zip [0 ..< length xs] xs))"

definition joi_status :: "string \<Rightarrow> joi_error list" where
  "joi_status s = (if s \<in> set valid_statuses then [] else [AnyOnly ''status''])"

definition joi_userRating :: "rat \<Rightarrow> joi_error list" where
  "joi_userRating x =
     joi_number ''userRating'' x @
     (if x < 1 then [NumberMin ''userRating''] else []) @
     (if x > 10 then [NumberMax ''userRating''] else [])"

definition joi_notes :: "string \<Rightarrow> joi_error list" where
  "joi_notes x =
     (if x = [] then [] else if length x > 500 then [StringMax ''notes''] else [])"

definition addGameSchema :: "add_body \<Rightarrow> joi_error list" where
  "addGameSchema b =
     joi_required ''gameId'' (joi_number ''gameId'') (req_gameId b) @
     joi_required ''name'' (joi_string ''name'') (req_name b) @
     joi_optional (joi_optional (joi_string ''background_image'')) (req_background_image b) @
     joi_optional (joi_optional (joi_string ''released'')) (req_released b) @
     joi_optional (joi_optional (joi_number ''rating'')) (req_rating b) @
     joi_optional (joi_items ''platforms'' (joi_optional (joi_ref ''platform.''))) (req_platforms b) @
     joi_optional (joi_items ''genres'' (joi_ref [])) (req_genres b) @
     joi_required ''status'' joi_status (req_status b) @
     map ObjectUnknown (req_unknown b)"

definition updateGameSchema :: "update_body \<Rightarrow> joi_error list" where
  "updateGameSchema b =
     joi_optional joi_status (upd_status b) @
     joi_optional (joi_optional joi_userRating) (upd_userRating b) @
     joi_optional joi_notes (upd_notes b) @
     map ObjectUnknown (upd_unknown b)"

text \<open>
  \<open>schema.validate(body)\<close> stops at the first violation: its \<open>error\<close> is absent for a
  valid body and otherwise has that violation as \<open>details[0]\<close>.
\<close>

definition validate :: "('b \<Rightarrow> joi_error list) \<Rightarrow> 'b \<Rightarrow> joi_error option" where
  "validate schema b = (case schema b of [] \<Rightarrow> None | e # _ \<Rightarrow> Some e)"

section \<open>The library routes\<close>

datatype message = Text string | JoiMessage joi_error

datatype response = Response (http_status: nat) (message: message) (game: "game_entry option")

text \<open>
  \<open>user.gameLibrary.push(gameData)\<close> casts the body to a subdocument of the entry
  schema: the declared keys are copied and every other field takes its schema default
  (\<open>dateAdded\<close> the current time).
\<close>

definition cast_entry :: "int \<Rightarrow> rat \<Rightarrow> string \<Rightarrow> string \<Rightarrow> add_body \<Rightarrow> game_entry" where
  "cast_entry now gid nm st b =
     \<lparr> gameId = gid, name = nm,
       background_image = (case req_background_image b of None \<Rightarrow> None | Some v \<Rightarrow> v),
       released = (case req_released b of None \<Rightarrow> None | Some v \<Rightarrow> v),
       rating = (case req_rating b of None \<Rightarrow> None | Some v \<Rightarrow> v),
       platforms = (case req_platforms b of None \<Rightarrow> [] | Some v \<Rightarrow> v),
       genres = (case req_genres b of None \<Rightarrow> [] | Some v \<Rightarrow> v),
       status = st, userRating = None, dateAdded = now, dateCompleted = None,
       notes = [] \<rparr>"

text \<open>
  Each mutating route returns its response and the user document as stored afterwards;
  on every path that returns before \<open>user.save()\<close> the stored document is the one
  that was loaded. \<open>now\<close> is the clock.
\<close>

definition post_library :: "int \<Rightarrow> add_body \<Rightarrow> user \<Rightarrow> response \<times> user" where
  "post_library now b u =
     (case validate addGameSchema b of
        Some e \<Rightarrow> (Response 400 (JoiMessage e) None, u)
      | None \<Rightarrow>
          if hasGame u (req_gameId b)
          then (Response 400 (Text ''Game already in library'') None, u)
          else (case (req_gameId b, req_name b, req_status b) of
                  (Some gid, Some nm, Some st) \<Rightarrow>
                    (let u1 = u\<lparr>gameLibrary := gameLibrary u @ [cast_entry now gid nm st b]\<rparr>;
                         u2 = updateStats u1
                     in (Response 201 (Text ''Game added to library'')
                           (Some (gameLibrary u2 ! (length (gameLibrary u2) - 1))), u2))
                | _ \<Rightarrow> (Response 500 (Text ''Server error'') None, u)))"

text \<open>The \<open>forEach\<close> over the keys of the body: only keys that are present are assigned.\<close>

definition assign_keys :: "update_body \<Rightarrow> game_entry \<Rightarrow> game_entry" where
  "assign_keys d g =
     (let g1 = (case upd_status d of None \<Rightarrow> g | Some s \<Rightarrow> g\<lparr>status := s\<rparr>);
          g2 = (case upd_userRating d of None \<Rightarrow> g1 | Some r \<Rightarrow> g1\<lparr>userRating := r\<rparr>);
          g3 = (case upd_notes d of None \<Rightarrow> g2 | Some n \<Rightarrow> g2\<lparr>notes := n\<rparr>)
      in g3)"

text \<open>
  The completion-date block, which runs after the keys have been assigned: \<open>g\<close> is the
  entry as it is then.
\<close>

definition set_completion :: "int \<Rightarrow> update_body \<Rightarrow> game_entry \<Rightarrow> game_entry" where
  "set_completion now d g =
     (if upd_status d = Some ''completed'' \<and> status g \<noteq> ''completed''
      then g\<lparr>dateCompleted := Some now\<rparr>
      else if upd_status d \<noteq> Some ''completed''
      then g\<lparr>dateCompleted := None\<rparr>
      else g)"

text \<open>
  \<open>getGame\<close> returns the first matching subdocument of the array itself, so the
  assignments change the library at that index.
\<close>

definition put_library :: "int \<Rightarrow> int option \<Rightarrow> update_body \<Rightarrow> user \<Rightarrow> response \<times> user" where
  "put_library now gid d u =
     (case validate updateGameSchema d of
        Some e \<Rightarrow> (Response 400 (JoiMessage e) None, u)
      | None \<Rightarrow>
          (case findIndex (same_id gid) (gameLibrary u) of
             None \<Rightarrow> (Response 404 (Text ''Game not found in library'') None, u)
           | Some i \<Rightarrow>
               (let g = set_completion now d (assign_keys d (gameLibrary u ! i));
                    u1 = u\<lparr>gameLibrary := (gameLibrary u)[i := g]\<rparr>;
                    u2 = updateStats u1
                in (Response 200 (Text ''Game updated successfully'') (Some g), u2))))"

definition delete_library :: "int option \<Rightarrow> user \<Rightarrow> response \<times> user" where
  "delete_library gid u =
     (case findIndex (same_id gid) (gameLibrary u) of
        None \<Rightarrow> (Response 404 (Text ''Game not found in library'') None, u)
      | Some i \<Rightarrow>
          (let u1 = u\<lparr>gameLibrary := take i (gameLibrary u) @ drop (Suc i) (gameLibrary u)\<rparr>;
               u2 = updateStats u1
           in (Response 200 (Text ''Game removed from library'') None, u2)))"

text \<open>A sequence of mutating requests, each applied to the document the last one stored.\<close>

datatype request =
    Add int add_body
  | Update int "int option" update_body
  | Remove "int option"

fun handle :: "request \<Rightarrow> user \<Rightarrow> response \<times> user" where
  "handle (Add now b) u = post_library now b u"
| "handle (Update now gid d) u = put_library now gid d u"
| "handle (Remove gid) u = delete_library gid u"

fun run :: "request list \<Rightarrow> user \<Rightarrow> user" where
  "run [] u = u"
| "run (r # rs) u = run rs (snd (handle r u))"


section \<open>The library listing\<close>

text \<open>
  \<open>Array.prototype.sort\<close> is stable and sorts in place; for a consistent comparator
  its result is the one stable arrangement in comparator order. The model is the stable
  insertion sort over the comparator \<open>c\<close> (a negative, zero or positive number), which
  computes that arrangement.
\<close>

fun insert_by :: "('a \<Rightarrow> 'a \<Rightarrow> rat) \<Rightarrow> 'a \<Rightarrow> 'a list \<Rightarrow> 'a list" where
  "insert_by c x [] = [x]"
| "insert_by c x (y # ys) = (if c x y \<le> 0 then x # y # ys else y # insert_by c x ys)"

definition array_sort :: "('a \<Rightarrow> 'a \<Rightarrow> rat) \<Rightarrow> 'a list \<Rightarrow> 'a list" where
  "array_sort c xs = foldr (insert_by c) xs []"

text \<open>
  A consistent comparator: swapping the arguments swaps the sign, and "not after" is
  transitive.
\<close>

definition consistent :: "('a \<Rightarrow> 'a \<Rightarrow> rat) \<Rightarrow> bool" where
  "consistent c \<longleftrightarrow>
     (\<forall>a b. (c a b < 0) = (0 < c b a)) \<and>
     (\<forall>a b d. c a b \<le> 0 \<and> c b d \<le> 0 \<longrightarrow> c a d \<le> 0)"

text \<open>\<open>a.userRating || 0\<close> and \<open>new Date(a.dateCompleted || 0)\<close>.\<close>

definition rating_or_0 :: "rat option \<Rightarrow> rat" where
  "rating_or_0 r = (case r of None \<Rightarrow> 0 | Some x \<Rightarrow> if x = 0 then 0 else x)"

definition date_or_0 :: "int option \<Rightarrow> int" where
  "date_or_0 d = (case d of None \<Rightarrow> 0 | Some t \<Rightarrow> t)"

text \<open>
  The comparator of the route. \<open>localeCompare\<close> is the string collation of the
  runtime, a parameter of the model.
\<close>

definition comparison ::
  "(string \<Rightarrow> string \<Rightarrow> rat) \<Rightarrow> string \<Rightarrow> game_entry \<Rightarrow> game_entry \<Rightarrow> rat" where
  "comparison localeCompare sortBy a b =
     (if sortBy = ''name'' then localeCompare (name a) (name b)
      else if sortBy = ''rating'' then rating_or_0 (userRating a) - rating_or_0 (userRating b)
      else if sortBy = ''dateAdded'' then of_int (dateAdded a) - of_int (dateAdded b)
      else if sortBy = ''dateCompleted''
      then of_int (date_or_0 (dateCompleted a)) - of_int (date_or_0 (dateCompleted b))
      else of_int (dateAdded a) - of_int (dateAdded b))"

definition compare_games ::
  "(string \<Rightarrow> string \<Rightarrow> rat) \<Rightarrow> string \<Rightarrow> string \<Rightarrow> game_entry \<Rightarrow> game_entry \<Rightarrow> rat" where
  "compare_games localeCompare sortBy order a b =
     (if order = ''asc'' then comparison localeCompare sortBy a b
      else - comparison localeCompare sortBy a b)"

record library_query =
  q_status :: "string option"
  q_sortBy :: "string option"
  q_order :: "string option"

definition truthy :: "string option \<Rightarrow> bool" where
  "truthy s = (case s of None \<Rightarrow> False | Some x \<Rightarrow> x \<noteq> [])"

text \<open>
  Arrays are objects: a variable holds a reference, \<open>filter\<close> allocates a new array,
  \<open>sort\<close> rearranges the array its receiver refers to. The store maps references to
  array contents; \<open>fresh\<close> is the next unused reference.
\<close>

record store =
  arrays :: "nat \<Rightarrow> game_entry list"
  fresh :: nat

definition alloc :: "game_entry list \<Rightarrow> store \<Rightarrow> nat \<times> store" where
  "alloc xs h = (fresh h, h\<lparr>arrays := (arrays h)(fresh h := xs), fresh := Suc (fresh h)\<rparr>)"

definition sort_in_place :: "(game_entry \<Rightarrow> game_entry \<Rightarrow> rat) \<Rightarrow> nat \<Rightarrow> store \<Rightarrow> store" where
  "sort_in_place c r h = h\<lparr>arrays := (arrays h)(r := array_sort c (arrays h r))\<rparr>"

text \<open>
  \<open>GET /library\<close>: \<open>lib\<close> is the reference held by \<open>req.user.gameLibrary\<close>. The
  result is the \<open>games\<close> of the response and the store afterwards.
\<close>

definition get_library ::
  "(string \<Rightarrow> string \<Rightarrow> rat) \<Rightarrow> library_query \<Rightarrow> nat \<Rightarrow> store \<Rightarrow> game_entry list \<times> store" where
  "get_library localeCompare q lib h =
     (let sortBy = (case q_sortBy q of None \<Rightarrow> ''dateAdded'' | Some s \<Rightarrow> s);
          order = (case q_order q of None \<Rightarrow> ''desc'' | Some s \<Rightarrow> s);
          (games, h1) =
            (if truthy (q_status q)
             then alloc (filter (\<lambda>g. Some (status g) = q_status q) (arrays h lib)) h
             else (lib, h));
          h2 = sort_in_place (compare_games localeCompare sortBy order) games h1
      in (arrays h2 games, h2))"

text \<open>
  The number that the comparator's difference compares for every sort key other than
  \<open>name\<close>: the user rating, the completion date or (also for an unknown key) the
  date of addition, an absent rating or completion date counting as 0.
\<close>

definition sort_key :: "string \<Rightarrow> game_entry \<Rightarrow> rat" where
  "sort_key sortBy g =
     (if sortBy = ''rating'' then (case userRating g of None \<Rightarrow> 0 | Some r \<Rightarrow> r)
      else if sortBy = ''dateCompleted''
      then (case dateCompleted g of None \<Rightarrow> 0 | Some t \<Rightarrow> of_int t)
      else of_int (dateAdded g))"

section \<open>Example documents and requests\<close>

definition mk_entry ::
  "rat \<Rightarrow> string \<Rightarrow> string \<Rightarrow> rat option \<Rightarrow> int \<Rightarrow> int option \<Rightarrow> game_entry" where
  "mk_entry gid nm st ur da dc =
     \<lparr> gameId = gid, name = nm, background_image = None, released = None, rating = None,
       platforms = [], genres = [], status = st, userRating = ur, dateAdded = da,
       dateCompleted = dc, notes = [] \<rparr>"

definition mk_user :: "game_entry list \<Rightarrow> user" where
  "mk_user lib =
     \<lparr> username = ''ann'', email = ''ann@example.org'', password = ''hash'',
       gameLibrary = lib,
       profile = \<lparr> bio = [], favoriteGenres = [], joinDate = 0 \<rparr>,
       stats = \<lparr> totalGames = 0, completedGames = 0, averageRating = 0 \<rparr> \<rparr>"

definition only_status :: "string \<Rightarrow> update_body" where
  "only_status s =
     \<lparr> upd_status = Some s, upd_userRating = None, upd_notes = None, upd_unknown = [] \<rparr>"

definition only_rating :: "rat option \<Rightarrow> update_body" where
  "only_rating r =
     \<lparr> upd_status = None, upd_userRating = Some r, upd_notes = None, upd_unknown = [] \<rparr>"

definition new_game :: "rat \<Rightarrow> string \<Rightarrow> string \<Rightarrow> add_body" where
  "new_game gid nm st =
     \<lparr> req_gameId = Some gid, req_name = Some nm, req_background_image = None,
       req_released = None, req_rating = None, req_platforms = None, req_genres = None,
       req_status = Some st, req_unknown = [] \<rparr>"

definition example_library :: "game_entry list" where
  "example_library =
     [mk_entry 1 ''Alpha'' ''completed'' (Some 7) 100 None,
      mk_entry 2 ''Beta'' ''playing'' None 200 None,
      mk_entry 3 ''Gamma'' ''dropped'' (Some 4) 300 None]"

definition only_notes :: "string \<Rightarrow> update_body" where
  "only_notes n =
     \<lparr> upd_status = None, upd_userRating = None, upd_notes = Some n, upd_unknown = [] \<rparr>"

text \<open>
  An example collation for \<open>localeCompare\<close>: the order of the character codes,
  a shorter string before its extensions.
\<close>

fun str_compare :: "string \<Rightarrow> string \<Rightarrow> rat" where
  "str_compare [] [] = 0"
| "str_compare [] (y # ys) = - 1"
| "str_compare (x # xs) [] = 1"
| "str_compare (x # xs) (y # ys) =
     (if (of_char x :: nat) < of_char y then - 1
      else if (of_char y :: nat) < of_char x then 1
      else str_compare xs ys)"

definition shelf :: "game_entry list" where
  "shelf =
     [mk_entry 1 ''Zelda'' ''completed'' (Some 9) 100 None,
      mk_entry 2 ''Celeste'' ''completed'' (Some 9) 200 None,
      mk_entry 3 ''Portal'' ''playing'' None 300 None,
      mk_entry 4 ''Braid'' ''completed'' (Some 6) 400 None]"

definition shelf_store :: store where
  "shelf_store = \<lparr> arrays = (\<lambda>r. [])(0 := shelf), fresh = 1 \<rparr>"

definition list_query :: "string option \<Rightarrow> string option \<Rightarrow> string option \<Rightarrow> library_query" where
  "list_query st sb ord = \<lparr> q_status = st, q_sortBy = sb, q_order = ord \<rparr>"

section \<open>Evaluation rules and basic facts\<close>

lemmas listing_defs = get_library_def alloc_def sort_in_place_def array_sort_def
  compare_games_def comparison_def rating_or_0_def date_or_0_def truthy_def Let_def
  list_query_def shelf_store_def shelf_def mk_entry_def

lemmas schema_defs = validate_def addGameSchema_def updateGameSchema_def joi_required_def
  joi_optional_def joi_number_def joi_string_def joi_status_def joi_userRating_def joi_notes_def
  joi_items_def joi_ref_def valid_statuses_def

lemmas route_defs = post_library_def put_library_def delete_library_def hasGame_def same_id_def
  cast_entry_def assign_keys_def set_completion_def updateStats_def Math_round_def
  add_rating_def Let_def

lemmas example_defs = mk_entry_def mk_user_def only_status_def only_rating_def only_notes_def
  new_game_def example_library_def

lemma findIndex_None: "findIndex p xs = None \<longleftrightarrow> (\<forall>x\<in>set xs. \<not> p x)"
  by (induction xs) auto

lemma findIndex_Some:
  "findIndex p xs = Some i \<longleftrightarrow> i < length xs \<and> p (xs ! i) \<and> (\<forall>j<i. \<not> p (xs ! j))"
proof (induction xs arbitrary: i)
  case Nil
  then show ?case by simp
next
  case (Cons x xs)
  show ?case
  proof (cases "p x")
    case True
    then show ?thesis by (cases i) auto
  next
    case False
    then show ?thesis
      using Cons.IH by (cases i) (auto simp: less_Suc_eq_0_disj)
  qed
qed

lemma find_findIndex: "find p xs = map_option (\<lambda>i. xs ! i) (findIndex p xs)"
  by (induction xs) (auto simp: option.map_comp comp_def)

lemma getGame_findIndex:
  "getGame u gid = map_option (\<lambda>i. gameLibrary u ! i) (findIndex (same_id gid) (gameLibrary u))"
  unfolding getGame_def by (rule find_findIndex)


section \<open>Statistics\<close>

lemma gameLibrary_updateStats: "gameLibrary (updateStats u) = gameLibrary u"
  by (simp add: updateStats_def Let_def)








lemma floor_numeral_div: "\<lfloor>numeral a / numeral b :: rat\<rfloor> = numeral a div numeral b"
  using floor_divide_of_int_eq [of "numeral a" "numeral b", where ?'a = rat] by simp




section \<open>Adding\<close>



section \<open>Removing\<close>






section \<open>Updating\<close>

lemma put_found:
  assumes "validate updateGameSchema d = None"
    and "findIndex (same_id gid) (gameLibrary u) = Some i"
  shows "put_library now gid d u =
     (Response 200 (Text ''Game updated successfully'')
        (Some (set_completion now d (assign_keys d (gameLibrary u ! i)))),
      updateStats (u\<lparr>gameLibrary :=
        (gameLibrary u)[i := set_completion now d (assign_keys d (gameLibrary u ! i))]\<rparr>))"
  using assms by (simp add: put_library_def Let_def)

lemma merged_frame:
  "(set_completion now d (assign_keys d g))
     \<lparr>status := status g, userRating := userRating g, notes := notes g,
      dateCompleted := dateCompleted g\<rparr> = g"
  by (simp add: set_completion_def assign_keys_def Let_def split: option.splits)

lemma merged_fields:
  "status (set_completion now d (assign_keys d g)) =
     (case upd_status d of None \<Rightarrow> status g | Some s \<Rightarrow> s)"
  "userRating (set_completion now d (assign_keys d g)) =
     (case upd_userRating d of None \<Rightarrow> userRating g | Some r \<Rightarrow> r)"
  "notes (set_completion now d (assign_keys d g)) =
     (case upd_notes d of None \<Rightarrow> notes g | Some n \<Rightarrow> n)"
  by (simp_all add: set_completion_def assign_keys_def Let_def split: option.splits)

text \<open>
  Claim C5. An update with a valid body of the first entry \<open>i\<close> that has the
  requested id merges only the keys of the body: \<open>status\<close>, \<open>userRating\<close> and
  \<open>notes\<close> each take the value of the body when the key is present and keep their
  value when it is absent; no field of the entry other than these three and
  \<open>dateCompleted\<close> changes; every other entry of the library is unchanged; of the
  user document only the library and the statistics change.
\<close>

theorem update_merges_provided_fields:
  assumes "validate updateGameSchema d = None"
    and "i < length (gameLibrary u)"
    and "same_id gid (gameLibrary u ! i)"
    and "\<forall>j<i. \<not> same_id gid (gameLibrary u ! j)"
  shows "let g = gameLibrary u ! i;
             u' = snd (put_library now gid d u);
             g' = gameLibrary u' ! i
         in http_status (fst (put_library now gid d u)) = 200 \<and>
            game (fst (put_library now gid d u)) = Some g' \<and>
            status g' = (case upd_status d of None \<Rightarrow> status g | Some s \<Rightarrow> s) \<and>
            userRating g' = (case upd_userRating d of None \<Rightarrow> userRating g | Some r \<Rightarrow> r) \<and>
            notes g' = (case upd_notes d of None \<Rightarrow> notes g | Some n \<Rightarrow> n) \<and>
            g'\<lparr>status := status g, userRating := userRating g, notes := notes g,
               dateCompleted := dateCompleted g\<rparr> = g \<and>
            length (gameLibrary u') = length (gameLibrary u) \<and>
            (\<forall>j<length (gameLibrary u). j \<noteq> i \<longrightarrow> gameLibrary u' ! j = gameLibrary u ! j) \<and>
            u'\<lparr>gameLibrary := gameLibrary u, stats := stats u\<rparr> = u"
proof -
  have f: "findIndex (same_id gid) (gameLibrary u) = Some i"
    using assms(2-4) by (simp add: findIndex_Some)
  show ?thesis
    unfolding Let_def put_found [OF assms(1) f]
    using assms(2)
    by (simp add: gameLibrary_updateStats merged_frame merged_fields)
      (simp add: updateStats_def Let_def)
qed

theorem update_merges_provided_fields_witness:
  "validate updateGameSchema (only_rating (Some 9)) = None \<and>
   same_id (Some 2) (gameLibrary (mk_user example_library) ! 1) \<and>
   \<not> same_id (Some 2) (gameLibrary (mk_user example_library) ! 0) \<and>
   fst (put_library 700 (Some 2) (only_rating (Some 9)) (mk_user example_library)) =
     Response 200 (Text ''Game updated successfully'')
       (Some (mk_entry 2 ''Beta'' ''playing'' (Some 9) 200 None)) \<and>
   gameLibrary (snd (put_library 700 (Some 2) (only_rating (Some 9)) (mk_user example_library))) =
     [mk_entry 1 ''Alpha'' ''completed'' (Some 7) 100 None,
      mk_entry 2 ''Beta'' ''playing'' (Some 9) 200 None,
      mk_entry 3 ''Gamma'' ''dropped'' (Some 4) 300 None]"
  using update_merges_provided_fields [of "only_rating (Some 9)" 1 "mk_user example_library"
      "Some 2" 700]
  by (simp add: schema_defs route_defs example_defs)

section \<open>Unique game ids\<close>










section \<open>Validation\<close>

lemma validate_Some: "validate schema b = Some e \<longleftrightarrow> (\<exists>es. schema b = e # es)"
  by (simp add: validate_def split: list.splits)

lemma validate_None: "validate schema b = None \<longleftrightarrow> schema b = []"
  by (simp add: validate_def split: list.splits)

lemma put_absent:
  "validate updateGameSchema d = None \<Longrightarrow> \<forall>g\<in>set (gameLibrary u). \<not> same_id gid g \<Longrightarrow>
   put_library now gid d u = (Response 404 (Text ''Game not found in library'') None, u)"
  by (simp add: put_library_def findIndex_None [THEN iffD2])

text \<open>
  Claim C9. An add or update whose body violates its schema is answered 400 with the
  first violation as message and the stored document is unchanged; a missing required key,
  a status outside the four values, a \<open>userRating\<close> below 1 or above 10 and
  \<open>notes\<close> longer than 500 characters are such violations. An update with a valid
  body for an id that no entry has is answered 404, the stored document unchanged.
\<close>

theorem invalid_body_rejected:
  "(validate addGameSchema b = Some e \<longrightarrow>
      e = hd (addGameSchema b) \<and>
      post_library now b u = (Response 400 (JoiMessage e) None, u)) \<and>
   (validate updateGameSchema d = Some e' \<longrightarrow>
      e' = hd (updateGameSchema d) \<and>
      put_library now gid d u = (Response 400 (JoiMessage e') None, u)) \<and>
   (req_gameId b = None \<or> req_name b = None \<or> req_status b = None \<longrightarrow>
      validate addGameSchema b \<noteq> None) \<and>
   (\<forall>s. req_status b = Some s \<and>
        s \<notin> {''playing'', ''completed'', ''dropped'', ''plan-to-play''} \<longrightarrow>
      validate addGameSchema b \<noteq> None) \<and>
   (\<forall>s. upd_status d = Some s \<and>
        s \<notin> {''playing'', ''completed'', ''dropped'', ''plan-to-play''} \<longrightarrow>
      validate updateGameSchema d \<noteq> None) \<and>
   (\<forall>x. upd_userRating d = Some (Some x) \<and> (x < 1 \<or> 10 < x) \<longrightarrow>
      validate updateGameSchema d \<noteq> None) \<and>
   (\<forall>n. upd_notes d = Some n \<and> 500 < length n \<longrightarrow>
      validate updateGameSchema d \<noteq> None) \<and>
   (validate updateGameSchema d = None \<and> (\<forall>g\<in>set (gameLibrary u). \<not> same_id gid g) \<longrightarrow>
      put_library now gid d u = (Response 404 (Text ''Game not found in library'') None, u))"
proof (intro conjI allI impI)
  assume v: "validate addGameSchema b = Some e"
  then show "e = hd (addGameSchema b)"
    by (auto simp: validate_Some)
  from v show "post_library now b u = (Response 400 (JoiMessage e) None, u)"
    by (simp add: post_library_def)
next
  assume v: "validate updateGameSchema d = Some e'"
  then show "e' = hd (updateGameSchema d)"
    by (auto simp: validate_Some)
  from v show "put_library now gid d u = (Response 400 (JoiMessage e') None, u)"
    by (simp add: put_library_def)
next
  assume "req_gameId b = None \<or> req_name b = None \<or> req_status b = None"
  then show "validate addGameSchema b \<noteq> None"
    by (auto simp: validate_None addGameSchema_def joi_required_def)
next
  fix s
  assume "req_status b = Some s \<and> s \<notin> {''playing'', ''completed'', ''dropped'', ''plan-to-play''}"
  then show "validate addGameSchema b \<noteq> None"
    by (simp add: validate_None addGameSchema_def joi_required_def joi_status_def
        valid_statuses_def)
next
  fix s
  assume "upd_status d = Some s \<and> s \<notin> {''playing'', ''completed'', ''dropped'', ''plan-to-play''}"
  then show "validate updateGameSchema d \<noteq> None"
    by (simp add: validate_None updateGameSchema_def joi_optional_def joi_status_def
        valid_statuses_def)
next
  fix x
  assume "upd_userRating d = Some (Some x) \<and> (x < 1 \<or> 10 < x)"
  then show "validate updateGameSchema d \<noteq> None"
    by (auto simp: validate_None updateGameSchema_def joi_optional_def joi_userRating_def)
next
  fix n
  assume "upd_notes d = Some n \<and> 500 < length n"
  then show "validate updateGameSchema d \<noteq> None"
    by (auto simp: validate_None updateGameSchema_def joi_optional_def joi_notes_def)
next
  assume "validate updateGameSchema d = None \<and> (\<forall>g\<in>set (gameLibrary u). \<not> same_id gid g)"
  then show "put_library now gid d u = (Response 404 (Text ''Game not found in library'') None, u)"
    by (simp add: put_absent)
qed

theorem invalid_body_rejected_witness:
  "post_library 700 (new_game 5 ''Eps'' ''finished'') (mk_user example_library) =
     (Response 400 (JoiMessage (AnyOnly ''status'')) None, mk_user example_library) \<and>
   post_library 700 ((new_game 5 ''Eps'' ''playing'')\<lparr>req_name := None, req_status := None\<rparr>)
       (mk_user example_library) =
     (Response 400 (JoiMessage (AnyRequired ''name'')) None, mk_user example_library) \<and>
   put_library 700 (Some 2) (only_status ''finished'') (mk_user example_library) =
     (Response 400 (JoiMessage (AnyOnly ''status'')) None, mk_user example_library) \<and>
   put_library 700 (Some 2) (only_rating (Some 11)) (mk_user example_library) =
     (Response 400 (JoiMessage (NumberMax ''userRating'')) None, mk_user example_library) \<and>
   put_library 700 (Some 2) (only_rating (Some (1 / 2))) (mk_user example_library) =
     (Response 400 (JoiMessage (NumberMin ''userRating'')) None, mk_user example_library) \<and>
   put_library 700 (Some 2) (only_notes (replicate 501 CHR ''x'')) (mk_user example_library) =
     (Response 400 (JoiMessage (StringMax ''notes'')) None, mk_user example_library) \<and>
   validate updateGameSchema (only_rating (Some 8)) = None \<and>
   \<not> list_ex (same_id (Some 9)) (gameLibrary (mk_user example_library)) \<and>
   put_library 700 (Some 9) (only_rating (Some 8)) (mk_user example_library) =
     (Response 404 (Text ''Game not found in library'') None, mk_user example_library)"
  using
    invalid_body_rejected [of "new_game 5 ''Eps'' ''finished''" "AnyOnly ''status''" 700
      "mk_user example_library" "only_status ''finished''" "AnyOnly ''status''" "Some 2"]
    invalid_body_rejected [of "(new_game 5 ''Eps'' ''playing'')\<lparr>req_name := None, req_status := None\<rparr>"
      "AnyRequired ''name''" 700
      "mk_user example_library" "only_rating (Some 11)" "NumberMax ''userRating''" "Some 2"]
    invalid_body_rejected [of "new_game 5 ''Eps'' ''finished''" "AnyOnly ''status''" 700
      "mk_user example_library" "only_rating (Some (1 / 2))" "NumberMin ''userRating''" "Some 2"]
    invalid_body_rejected [of "new_game 5 ''Eps'' ''finished''" "AnyOnly ''status''" 700
      "mk_user example_library" "only_notes (replicate 501 CHR ''x'')" "StringMax ''notes''" "Some 2"]
    invalid_body_rejected [of "new_game 5 ''Eps'' ''finished''" "AnyOnly ''status''" 700
      "mk_user example_library" "only_rating (Some 8)" "AnyOnly ''status''" "Some 9"]
  by (simp add: schema_defs example_defs same_id_def)


section \<open>Completion dates\<close>

lemma dateCompleted_merged:
  "dateCompleted (set_completion now d (assign_keys d g)) =
     (if upd_status d = Some ''completed'' then dateCompleted g else None)"
  by (simp add: set_completion_def assign_keys_def Let_def split: option.splits)

lemma handle_dateCompleted_None:
  assumes "\<forall>g\<in>set (gameLibrary u). dateCompleted g = None"
  shows "\<forall>g\<in>set (gameLibrary (snd (handle r u))). dateCompleted g = None"
proof (cases r)
  case (Add now b)
  with assms show ?thesis
    by (auto simp: post_library_def Let_def gameLibrary_updateStats cast_entry_def
        split: option.splits if_splits)
next
  case (Update now gid d)
  show ?thesis
  proof (cases "validate updateGameSchema d = None \<and> findIndex (same_id gid) (gameLibrary u) \<noteq> None")
    case True
    then obtain i where i: "findIndex (same_id gid) (gameLibrary u) = Some i" by auto
    then have "i < length (gameLibrary u)" by (simp add: findIndex_Some)
    then have "dateCompleted (gameLibrary u ! i) = None" using assms by simp
    then show ?thesis
      using Update True assms put_found [of d gid u i now] i
      by (auto simp: gameLibrary_updateStats dateCompleted_merged dest!: set_update_subset_insert [THEN subsetD])
  next
    case False
    then show ?thesis using Update assms
      by (auto simp: put_library_def split: option.splits)
  qed
next
  case (Remove gid)
  with assms show ?thesis
    by (auto simp: delete_library_def Let_def gameLibrary_updateStats
        split: option.splits dest!: in_set_takeD in_set_dropD)
qed

lemma run_dateCompleted_None:
  "\<forall>g\<in>set (gameLibrary u). dateCompleted g = None \<Longrightarrow>
   \<forall>g\<in>set (gameLibrary (run rs u)). dateCompleted g = None"
proof (induction rs arbitrary: u)
  case Nil
  then show ?case by simp
next
  case (Cons r rs)
  from Cons.prems have "\<forall>g\<in>set (gameLibrary (snd (handle r u))). dateCompleted g = None"
    by (rule handle_dateCompleted_None)
  then show ?case using Cons.IH by simp
qed

text \<open>
  Claim C4 speaks of an update that stamps \<open>dateCompleted\<close> when the status
  becomes completed and that leaves it alone when the status does not change. The route
  assigns the keys of the body before its completion-date block compares the entry's
  status, so the stamping branch is never taken (\<open>dateCompleted_merged\<close>): updating
  the playing entry 2 to completed at time 720 stores it with no completion date, and an
  update of the rating alone clears the completion date of a completed entry.
\<close>

theorem update_to_completed_not_stamped:
  "put_library 720 (Some 2) (only_status ''completed'') (mk_user example_library) =
     (Response 200 (Text ''Game updated successfully'')
        (Some (mk_entry 2 ''Beta'' ''completed'' None 200 None)),
      (mk_user [mk_entry 1 ''Alpha'' ''completed'' (Some 7) 100 None,
                mk_entry 2 ''Beta'' ''completed'' None 200 None,
                mk_entry 3 ''Gamma'' ''dropped'' (Some 4) 300 None])
        \<lparr>stats := \<lparr> totalGames = 3, completedGames = 2, averageRating = 7 \<rparr>\<rparr>) \<and>
   gameLibrary (snd (put_library 720 (Some 1) (only_rating (Some 9))
       (mk_user [mk_entry 1 ''Alpha'' ''completed'' (Some 7) 100 (Some 150)]))) =
     [mk_entry 1 ''Alpha'' ''completed'' (Some 9) 100 None]"
  by (simp add: schema_defs route_defs example_defs floor_numeral_div)

text \<open>
  Claim C2 speaks of the invariant that \<open>dateCompleted\<close> is set exactly for the
  completed entries. Starting from an empty library, adding a playing game and updating
  it to completed, or adding a game as completed, stores a completed entry with no
  completion date; no sequence of requests ever stores one
  (\<open>run_dateCompleted_None\<close>).
\<close>

theorem completed_without_date:
  "gameLibrary (run [Add 700 (new_game 1 ''Alpha'' ''playing''),
                     Update 720 (Some 1) (only_status ''completed'')] (mk_user [])) =
     [mk_entry 1 ''Alpha'' ''completed'' None 700 None] \<and>
   gameLibrary (run [Add 700 (new_game 1 ''Alpha'' ''completed'')] (mk_user [])) =
     [mk_entry 1 ''Alpha'' ''completed'' None 700 None]"
  by (simp add: schema_defs route_defs example_defs)

section \<open>Listing\<close>

lemma mset_insert_by: "mset (insert_by c x xs) = add_mset x (mset xs)"
  by (induction xs) auto

lemma mset_array_sort: "mset (array_sort c xs) = mset xs"
  unfolding array_sort_def by (induction xs) (auto simp: mset_insert_by)

lemma set_insert_by: "set (insert_by c x xs) = insert x (set xs)"
  using mset_insert_by [of c x xs, THEN arg_cong, of set_mset] by simp

lemma consistent_flip: "consistent c \<Longrightarrow> 0 < c a b \<Longrightarrow> c b a \<le> 0"
  unfolding consistent_def by (metis less_imp_le)

lemma consistent_trans: "consistent c \<Longrightarrow> c a b \<le> 0 \<Longrightarrow> c b d \<le> 0 \<Longrightarrow> c a d \<le> 0"
  unfolding consistent_def by blast

lemma consistent_zero_sym: "consistent c \<Longrightarrow> c a b = 0 \<Longrightarrow> c b a = 0"
  unfolding consistent_def by (metis less_irrefl linorder_neqE_linordered_idom)

lemma sorted_insert_by:
  assumes "consistent c"
  shows "sorted_wrt (\<lambda>a b. c a b \<le> 0) xs \<Longrightarrow> sorted_wrt (\<lambda>a b. c a b \<le> 0) (insert_by c x xs)"
proof (induction xs)
  case Nil
  then show ?case by simp
next
  case (Cons y ys)
  show ?case
  proof (cases "c x y \<le> 0")
    case True
    then have "\<forall>z\<in>set ys. c x z \<le> 0"
      using Cons.prems consistent_trans [OF assms] by auto
    with True Cons.prems show ?thesis by simp
  next
    case False
    then have "c y x \<le> 0" using consistent_flip [OF assms, of x y] by simp
    with False Cons show ?thesis by (auto simp: set_insert_by)
  qed
qed

lemma sorted_array_sort:
  "consistent c \<Longrightarrow> sorted_wrt (\<lambda>a b. c a b \<le> 0) (array_sort c xs)"
  unfolding array_sort_def by (induction xs) (auto simp: sorted_insert_by)

lemma consistent_neg: "consistent c \<Longrightarrow> consistent (\<lambda>a b. - c a b)"
  unfolding consistent_def
  apply (intro conjI allI impI)
   apply (metis neg_less_0_iff_less neg_0_less_iff_less)
  apply (metis neg_le_0_iff_le not_less order_less_imp_le)
  done

lemma consistent_diff: "consistent (\<lambda>a b. (f a :: rat) - f b)"
  unfolding consistent_def by auto

lemma consistent_on_name: "consistent c \<Longrightarrow> consistent (\<lambda>a b. c (f a) (f b))"
  unfolding consistent_def by blast

lemma filter_insert_by:
  assumes "\<And>x y. P x \<Longrightarrow> P y \<Longrightarrow> c x y \<le> 0"
  shows "filter P (insert_by c x xs) = (if P x then x # filter P xs else filter P xs)"
  using assms by (induction xs) auto

lemma filter_array_sort:
  assumes "\<And>x y. P x \<Longrightarrow> P y \<Longrightarrow> c x y \<le> 0"
  shows "filter P (array_sort c xs) = filter P xs"
  unfolding array_sort_def using assms by (induction xs) (simp_all add: filter_insert_by)

lemma comparison_sort_key:
  "sortBy \<noteq> ''name'' \<Longrightarrow> comparison lc sortBy a b = sort_key sortBy a - sort_key sortBy b"
  by (simp add: comparison_def sort_key_def rating_or_0_def date_or_0_def split: option.splits)

lemma comparison_name: "comparison lc ''name'' a b = lc (name a) (name b)"
  by (simp add: comparison_def)

lemma consistent_comparison:
  assumes "sortBy = ''name'' \<longrightarrow> consistent lc"
  shows "consistent (comparison lc sortBy)"
proof (cases "sortBy = ''name''")
  case True
  with assms have "consistent (\<lambda>a b. lc (name a) (name b))"
    by (simp add: consistent_on_name)
  with True show ?thesis by (simp add: comparison_name [abs_def])
next
  case False
  then have "comparison lc sortBy = (\<lambda>a b. sort_key sortBy a - sort_key sortBy b)"
    by (intro ext) (rule comparison_sort_key)
  then show ?thesis by (simp add: consistent_diff)
qed

lemma get_library_games:
  "fst (get_library lc q lib h) =
     array_sort (compare_games lc (case q_sortBy q of None \<Rightarrow> ''dateAdded'' | Some s \<Rightarrow> s)
                   (case q_order q of None \<Rightarrow> ''desc'' | Some s \<Rightarrow> s))
       (if q_status q = None \<or> q_status q = Some [] then arrays h lib
        else filter (\<lambda>g. Some (status g) = q_status q) (arrays h lib))"
  by (auto simp: get_library_def alloc_def sort_in_place_def Let_def truthy_def
      split: option.splits)

lemma asc_order:
  "((case q_order q of None \<Rightarrow> ''desc'' | Some s \<Rightarrow> s) = ''asc'') = (q_order q = Some ''asc'')"
  by (simp split: option.splits)

lemma sorted_listing:
  assumes "consistent (comparison lc sortBy)"
  shows "sorted_wrt (\<lambda>a b. if order = ''asc'' then comparison lc sortBy a b \<le> 0
                         else 0 \<le> comparison lc sortBy a b)
           (array_sort (compare_games lc sortBy order) xs)"
proof (cases "order = ''asc''")
  case True
  then have "compare_games lc sortBy order = comparison lc sortBy"
    by (intro ext) (simp add: compare_games_def)
  with True sorted_array_sort [OF assms, of xs] show ?thesis by simp
next
  case False
  then have c: "compare_games lc sortBy order = (\<lambda>a b. - comparison lc sortBy a b)"
    by (intro ext) (simp add: compare_games_def)
  from sorted_array_sort [OF consistent_neg [OF assms], of xs] False show ?thesis
    unfolding c by simp
qed

lemma ties_listing:
  assumes "\<And>x y. P x \<Longrightarrow> P y \<Longrightarrow> comparison lc sortBy x y = 0"
  shows "filter P (array_sort (compare_games lc sortBy order) xs) = filter P xs"
  by (rule filter_array_sort) (simp add: compare_games_def assms)

lemma str_compare_flip: "(str_compare a b < 0) = (0 < str_compare b a)"
  by (induction a b rule: str_compare.induct) auto

lemma str_compare_trans:
  "str_compare a b \<le> 0 \<Longrightarrow> str_compare b d \<le> 0 \<Longrightarrow> str_compare a d \<le> 0"
proof (induction a arbitrary: b d)
  case Nil
  then show ?case by (cases d) auto
next
  case (Cons x xs)
  then show ?case
    by (cases b; cases d) (auto split: if_splits)
qed

lemma consistent_str_compare: "consistent str_compare"
  unfolding consistent_def using str_compare_flip str_compare_trans by blast

lemma consistent_antisym:
  assumes "consistent c" "c a b \<le> 0" "c b a \<le> 0"
  shows "c a b = 0"
proof -
  from assms(1) have "(c a b < 0) = (0 < c b a)"
    unfolding consistent_def by blast
  with assms(3) have "\<not> c a b < 0" by simp
  with assms(2) show ?thesis by simp
qed

text \<open>
  Claim C6. The listing returns exactly the entries of the library that match the status
  filter (all of them when the filter is absent or empty), arranged by the sort key in
  the direction asked for (descending unless the order is \<open>asc\<close>; by date of
  addition unless the key is one of the other three), and entries that tie on the key
  stand in the order they have in the library. For the key \<open>name\<close> this needs
  the collation to be a consistent comparator. The result is a function of the library
  and the query.
\<close>

theorem listing_filtered_and_sorted:
  assumes "q_sortBy q = Some ''name'' \<longrightarrow> consistent localeCompare"
  shows "let sortBy = (case q_sortBy q of None \<Rightarrow> ''dateAdded'' | Some s \<Rightarrow> s);
             shown = (if q_status q = None \<or> q_status q = Some [] then arrays h lib
                      else filter (\<lambda>g. Some (status g) = q_status q) (arrays h lib));
             games = fst (get_library localeCompare q lib h)
         in mset games = mset shown \<and>
            (if sortBy = ''name''
             then sorted_wrt (\<lambda>a b. if q_order q = Some ''asc''
                                    then localeCompare (name a) (name b) \<le> 0
                                    else 0 \<le> localeCompare (name a) (name b)) games \<and>
                  (\<forall>n. filter (\<lambda>g. localeCompare n (name g) = 0) games =
                       filter (\<lambda>g. localeCompare n (name g) = 0) shown)
             else sorted_wrt (\<lambda>a b. if q_order q = Some ''asc''
                                    then sort_key sortBy a \<le> sort_key sortBy b
                                    else sort_key sortBy b \<le> sort_key sortBy a) games \<and>
                  (\<forall>v. filter (\<lambda>g. sort_key sortBy g = v) games =
                       filter (\<lambda>g. sort_key sortBy g = v) shown))"
proof -
  define sortBy where "sortBy = (case q_sortBy q of None \<Rightarrow> ''dateAdded'' | Some s \<Rightarrow> s)"
  define order where "order = (case q_order q of None \<Rightarrow> ''desc'' | Some s \<Rightarrow> s)"
  define shown where "shown = (if q_status q = None \<or> q_status q = Some [] then arrays h lib
                      else filter (\<lambda>g. Some (status g) = q_status q) (arrays h lib))"
  have games: "fst (get_library localeCompare q lib h) =
      array_sort (compare_games localeCompare sortBy order) shown"
    unfolding sortBy_def order_def shown_def by (rule get_library_games)
  have asc: "(order = ''asc'') = (q_order q = Some ''asc'')"
    unfolding order_def by (rule asc_order)
  have "sortBy = ''name'' \<longrightarrow> consistent localeCompare"
    using assms unfolding sortBy_def by (auto split: option.splits)
  then have con: "consistent (comparison localeCompare sortBy)"
    by (rule consistent_comparison)
  note srt = sorted_listing [OF con, of order shown, unfolded asc]
  have perm: "mset (array_sort (compare_games localeCompare sortBy order) shown) = mset shown"
    by (rule mset_array_sort)
  have rest: "if sortBy = ''name''
     then sorted_wrt (\<lambda>a b. if q_order q = Some ''asc''
                            then localeCompare (name a) (name b) \<le> 0
                            else 0 \<le> localeCompare (name a) (name b))
            (array_sort (compare_games localeCompare sortBy order) shown) \<and>
          (\<forall>n. filter (\<lambda>g. localeCompare n (name g) = 0)
                 (array_sort (compare_games localeCompare sortBy order) shown) =
               filter (\<lambda>g. localeCompare n (name g) = 0) shown)
     else sorted_wrt (\<lambda>a b. if q_order q = Some ''asc''
                            then sort_key sortBy a \<le> sort_key sortBy b
                            else sort_key sortBy b \<le> sort_key sortBy a)
            (array_sort (compare_games localeCompare sortBy order) shown) \<and>
          (\<forall>v. filter (\<lambda>g. sort_key sortBy g = v)
                 (array_sort (compare_games localeCompare sortBy order) shown) =
               filter (\<lambda>g. sort_key sortBy g = v) shown)"
  proof (cases "sortBy = ''name''")
    case True
    then have lc: "consistent localeCompare"
      using \<open>sortBy = ''name'' \<longrightarrow> consistent localeCompare\<close> by simp
    have tie: "localeCompare n x = 0 \<Longrightarrow> localeCompare n y = 0 \<Longrightarrow> localeCompare x y = 0"
      for n x y
    proof -
      assume a: "localeCompare n x = 0" "localeCompare n y = 0"
      then have "localeCompare x n = 0" "localeCompare y n = 0"
        using consistent_zero_sym [OF lc] by auto
      with a have "localeCompare x y \<le> 0" "localeCompare y x \<le> 0"
        using consistent_trans [OF lc, of x n y] consistent_trans [OF lc, of y n x] by auto
      then show ?thesis
        by (rule consistent_antisym [OF lc])
    qed
    have cmp: "comparison localeCompare sortBy = (\<lambda>a b. localeCompare (name a) (name b))"
      by (intro ext) (simp add: True comparison_name)
    have ties: "\<forall>n. filter (\<lambda>g. localeCompare n (name g) = 0)
            (array_sort (compare_games localeCompare sortBy order) shown) =
          filter (\<lambda>g. localeCompare n (name g) = 0) shown"
    proof (intro allI, rule ties_listing)
      fix n and x y :: game_entry
      assume "localeCompare n (name x) = 0" "localeCompare n (name y) = 0"
      then have "localeCompare (name x) (name y) = 0" by (rule tie)
      then show "comparison localeCompare sortBy x y = 0"
        by (simp add: cmp)
    qed
    show ?thesis
      unfolding if_P [OF True] using srt [unfolded cmp] ties by (rule conjI)
  next
    case False
    have cmp: "comparison localeCompare sortBy = (\<lambda>a b. sort_key sortBy a - sort_key sortBy b)"
      by (intro ext) (rule comparison_sort_key [OF False])
    have ties: "\<forall>v. filter (\<lambda>g. sort_key sortBy g = v)
            (array_sort (compare_games localeCompare sortBy order) shown) =
          filter (\<lambda>g. sort_key sortBy g = v) shown"
    proof (intro allI, rule ties_listing)
      fix v and x y :: game_entry
      assume "sort_key sortBy x = v" "sort_key sortBy y = v"
      then show "comparison localeCompare sortBy x y = 0"
        by (simp add: cmp)
    qed
    have le: "(\<lambda>a b. if q_order q = Some ''asc''
                      then sort_key sortBy a - sort_key sortBy b \<le> 0
                      else 0 \<le> sort_key sortBy a - sort_key sortBy b) =
        (\<lambda>a b. if q_order q = Some ''asc''
                      then sort_key sortBy a \<le> sort_key sortBy b
                      else sort_key sortBy b \<le> sort_key sortBy a)"
      by (intro ext) simp
    have "sorted_wrt (\<lambda>a b. if q_order q = Some ''asc''
                            then sort_key sortBy a \<le> sort_key sortBy b
                            else sort_key sortBy b \<le> sort_key sortBy a)
            (array_sort (compare_games localeCompare sortBy order) shown)"
      using srt [unfolded cmp le] .
    then show ?thesis
      unfolding if_not_P [OF False] using ties by (rule conjI)
  qed
  show ?thesis
    unfolding Let_def sortBy_def [symmetric] shown_def [symmetric] games
    using perm rest by (rule conjI)
qed

theorem listing_filtered_and_sorted_witness:
  "consistent str_compare \<and>
   fst (get_library str_compare (list_query (Some ''completed'') (Some ''name'') (Some ''asc''))
         0 shelf_store) =
     [mk_entry 4 ''Braid'' ''completed'' (Some 6) 400 None,
      mk_entry 2 ''Celeste'' ''completed'' (Some 9) 200 None,
      mk_entry 1 ''Zelda'' ''completed'' (Some 9) 100 None] \<and>
   fst (get_library str_compare (list_query None (Some ''rating'') (Some ''desc'')) 0 shelf_store) =
     [mk_entry 1 ''Zelda'' ''completed'' (Some 9) 100 None,
      mk_entry 2 ''Celeste'' ''completed'' (Some 9) 200 None,
      mk_entry 4 ''Braid'' ''completed'' (Some 6) 400 None,
      mk_entry 3 ''Portal'' ''playing'' None 300 None]"
  using
    listing_filtered_and_sorted [of "list_query (Some ''completed'') (Some ''name'') (Some ''asc'')"
      str_compare shelf_store 0]
    listing_filtered_and_sorted [of "list_query None (Some ''rating'') (Some ''desc'')"
      str_compare shelf_store 0]
  by (simp add: consistent_str_compare listing_defs)

lemma get_library_store:
  "arrays (snd (get_library lc q lib h)) =
     (if q_status q = None \<or> q_status q = Some []
      then (arrays h)(lib := fst (get_library lc q lib h))
      else (arrays h)(fresh h := fst (get_library lc q lib h)))"
  by (auto simp: get_library_def alloc_def sort_in_place_def Let_def truthy_def
      split: option.splits)

text \<open>
  Claim C10. Without a status filter the listing sorts the array that the user document
  holds: afterwards that array is the sorted listing that was returned, and its order can
  differ from the order before. With a status filter the sort runs on the fresh array
  made by \<open>filter\<close> and the stored array is as before. No other array changes.
\<close>

theorem listing_sorts_stored_array:
  assumes "lib < fresh h"
  shows "(if q_status q = None \<or> q_status q = Some []
          then arrays (snd (get_library lc q lib h)) lib = fst (get_library lc q lib h) \<and>
               arrays (snd (get_library lc q lib h)) lib =
                 array_sort (compare_games lc
                     (case q_sortBy q of None \<Rightarrow> ''dateAdded'' | Some s \<Rightarrow> s)
                     (case q_order q of None \<Rightarrow> ''desc'' | Some s \<Rightarrow> s))
                   (arrays h lib)
          else arrays (snd (get_library lc q lib h)) lib = arrays h lib) \<and>
         (\<forall>r<fresh h. r \<noteq> lib \<longrightarrow> arrays (snd (get_library lc q lib h)) r = arrays h r) \<and>
         arrays (snd (get_library str_compare (list_query None None None) 0 shelf_store)) 0
           \<noteq> arrays shelf_store 0"
proof (intro conjI)
  show "if q_status q = None \<or> q_status q = Some []
          then arrays (snd (get_library lc q lib h)) lib = fst (get_library lc q lib h) \<and>
               arrays (snd (get_library lc q lib h)) lib =
                 array_sort (compare_games lc
                     (case q_sortBy q of None \<Rightarrow> ''dateAdded'' | Some s \<Rightarrow> s)
                     (case q_order q of None \<Rightarrow> ''desc'' | Some s \<Rightarrow> s))
                   (arrays h lib)
          else arrays (snd (get_library lc q lib h)) lib = arrays h lib"
    using assms by (simp add: get_library_store) (simp add: get_library_games)
  show "\<forall>r<fresh h. r \<noteq> lib \<longrightarrow> arrays (snd (get_library lc q lib h)) r = arrays h r"
    by (simp add: get_library_store)
  show "arrays (snd (get_library str_compare (list_query None None None) 0 shelf_store)) 0
           \<noteq> arrays shelf_store 0"
    by (simp add: listing_defs)
qed

theorem listing_sorts_stored_array_witness:
  "0 < fresh shelf_store \<and>
   arrays (snd (get_library str_compare (list_query None None None) 0 shelf_store)) 0 =
     [mk_entry 4 ''Braid'' ''completed'' (Some 6) 400 None,
      mk_entry 3 ''Portal'' ''playing'' None 300 None,
      mk_entry 2 ''Celeste'' ''completed'' (Some 9) 200 None,
      mk_entry 1 ''Zelda'' ''completed'' (Some 9) 100 None] \<and>
   arrays (snd (get_library str_compare (list_query (Some ''completed'') None None) 0 shelf_store)) 0 =
     shelf"
  using
    listing_sorts_stored_array [of 0 shelf_store "list_query None None None" str_compare]
    listing_sorts_stored_array [of 0 shelf_store "list_query (Some ''completed'') None None" str_compare]
  by (simp add: listing_defs)

end
